theory Spec2Isabelle
  imports Complex_Main "HOL-Library.AList" "HOL-Library.Multiset" "HOL-Library.Sublist"
begin

section \<open>Shelter recommendation: scoring and ranking core of \<open>app.py\<close>\<close>

text \<open>
  Conventions of the embedding.
  \<^item> A Python \<open>str\<close> is the byte string of its UTF-8 encoding (\<open>string\<close>); two Python
    strings are equal exactly when their encodings are, and the empty string is \<open>[]\<close>.
  \<^item> A Python \<open>dict\<close> with string keys is an association list in insertion order;
    \<open>d[k]\<close> raises \<open>KeyError\<close> on a missing key, \<open>d.get(k, default)\<close> does not.
  \<^item> A finite Python \<open>float\<close> is the real number it stands for and float arithmetic
    is exact arithmetic on the reals: the rounding error of binary floating point is not
    part of the model. \<open>round(x, 1)\<close> rounds the exact decimal expansion, ties to even.
  \<^item> An exception is a value: a function that can raise returns \<open>exn + 'a\<close>.
\<close>

subsection \<open>Dictionaries and exceptions\<close>

type_synonym 'v dict = "(string \<times> 'v) list"

datatype exn = KeyError string | TypeError | ValueError | OverflowError

definition subscript :: "'v dict \<Rightarrow> string \<Rightarrow> exn + 'v" where
  \<comment> \<open>\<open>d[k]\<close>\<close>
  "subscript d k = (case map_of d k of None \<Rightarrow> Inl (KeyError k) | Some v \<Rightarrow> Inr v)"

definition get_or :: "'v dict \<Rightarrow> string \<Rightarrow> 'v \<Rightarrow> 'v" where
  \<comment> \<open>\<open>d.get(k, default)\<close>\<close>
  "get_or d k dflt = (case map_of d k of None \<Rightarrow> dflt | Some v \<Rightarrow> v)"

subsection \<open>Priority labels and their weights\<close>

text \<open>The five labels of the source are Japanese words; each is given by its UTF-8 bytes.\<close>

definition label_highest :: string where
  \<comment> \<open>U+6700 U+9AD8\<close>
  "label_highest = [CHR 0xE6, CHR 0x9C, CHR 0x80, CHR 0xE9, CHR 0xAB, CHR 0x98]"

definition label_high :: string where
  \<comment> \<open>U+9AD8\<close>
  "label_high = [CHR 0xE9, CHR 0xAB, CHR 0x98]"

definition label_medium :: string where
  \<comment> \<open>U+4E2D\<close>
  "label_medium = [CHR 0xE4, CHR 0xB8, CHR 0xAD]"

definition label_low :: string where
  \<comment> \<open>U+4F4E\<close>
  "label_low = [CHR 0xE4, CHR 0xBD, CHR 0x8E]"

definition label_lowest :: string where
  \<comment> \<open>U+6700 U+4F4E\<close>
  "label_lowest = [CHR 0xE6, CHR 0x9C, CHR 0x80, CHR 0xE4, CHR 0xBD, CHR 0x8E]"

definition PRIORITY_WEIGHTS :: "int dict" where
  "PRIORITY_WEIGHTS =
     [(label_highest, 10), (label_high, 6), (label_medium, 3), (label_low, - 5),
      (label_lowest, - 20)]"

definition weight_of :: "string \<Rightarrow> int" where
  \<comment> \<open>\<open>PRIORITY_WEIGHTS.get(priority, 3)\<close>\<close>
  "weight_of priority = get_or PRIORITY_WEIGHTS priority 3"

definition item_weight :: "string dict \<Rightarrow> string \<Rightarrow> int" where
  \<comment> \<open>the weight of one supply item: \<open>needs.get(item, medium)\<close>, then the table\<close>
  "item_weight needs_dict item = weight_of (get_or needs_dict item label_medium)"

subsection \<open>Rounding to one decimal place\<close>

definition round_half_even :: "real \<Rightarrow> int" where
  "round_half_even y =
     (let n = \<lfloor>y\<rfloor>; r = y - of_int n
      in if r < 1 / 2 then n else if 1 / 2 < r then n + 1
         else if even n then n else n + 1)"

definition py_round :: "real \<Rightarrow> nat \<Rightarrow> real" where
  \<comment> \<open>\<open>round(x, ndigits)\<close> for \<open>ndigits >= 0\<close>\<close>
  "py_round x ndigits = of_int (round_half_even (x * 10 ^ ndigits)) / 10 ^ ndigits"

subsection \<open>The score engine\<close>

record user_profile =
  needs :: "string dict"
  total_people :: int

definition supply_items :: "string list" where
  "supply_items = [''supply_a'', ''supply_b'', ''supply_c'']"

definition tally_item ::
  "user_profile \<Rightarrow> real dict \<Rightarrow> string \<Rightarrow> int \<times> real \<Rightarrow> exn + (int \<times> real)" where
  \<comment> \<open>one pass of the loop body over \<open>(total_weight, acquired_weight)\<close>\<close>
  "tally_item profile shelter_features item acc =
     (case acc of (total_weight, acquired_weight) \<Rightarrow>
        let priority = get_or (needs profile) item label_medium;
            weight = weight_of priority;
            total_weight' = (if weight > 0 then total_weight + weight else total_weight)
        in (case subscript shelter_features item of
              Inl e \<Rightarrow> Inl e
            | Inr item_stock \<Rightarrow>
                Inr (total_weight',
                     if item_stock \<ge> 20 then acquired_weight + of_int weight
                     else if item_stock > 0 then acquired_weight + of_int weight * (1 / 2)
                     else acquired_weight)))"

fun tally ::
  "user_profile \<Rightarrow> real dict \<Rightarrow> string list \<Rightarrow> int \<times> real \<Rightarrow> exn + (int \<times> real)" where
  "tally profile shelter_features [] acc = Inr acc"
| "tally profile shelter_features (item # rest) acc =
     (case tally_item profile shelter_features item acc of
        Inl e \<Rightarrow> Inl e
      | Inr acc' \<Rightarrow> tally profile shelter_features rest acc')"

definition supply_score_of :: "int \<Rightarrow> real \<Rightarrow> real" where
  \<comment> \<open>the supply score before rounding, from the two tallies\<close>
  "supply_score_of total_weight acquired_weight =
     min 100 (if total_weight > 0 then acquired_weight / of_int total_weight * 100
              else 100 + acquired_weight)"

definition total_score_of :: "int \<Rightarrow> real \<Rightarrow> real \<Rightarrow> real" where
  \<comment> \<open>the composite score before rounding\<close>
  "total_score_of people_count congestion_val supply_score =
     (let (congestion_score, w_congestion, w_supply) =
            (if people_count \<ge> 6 then (max 0 (100 - congestion_val), 7, 3)
             else (congestion_val, 5, 5))
      in (congestion_score * w_congestion + supply_score * w_supply)
           / (w_congestion + w_supply))"

definition calculate_recommendation_score ::
  "user_profile \<Rightarrow> real dict \<Rightarrow> exn + (real \<times> real)" where
  "calculate_recommendation_score profile shelter_features =
     (case subscript shelter_features ''congestion'' of
        Inl e \<Rightarrow> Inl e
      | Inr congestion_val \<Rightarrow>
          (case tally profile shelter_features supply_items (0, 0) of
             Inl e \<Rightarrow> Inl e
           | Inr (total_weight, acquired_weight) \<Rightarrow>
               let supply_score = supply_score_of total_weight acquired_weight;
                   total_score =
                     total_score_of (total_people profile) congestion_val supply_score
               in Inr (py_round total_score 1, py_round supply_score 1)))"

subsection \<open>The quantities of the specification\<close>

text \<open>
  The next four definitions follow the words of the specification, not the code: the
  total weight is the sum of the positive weights of the three items, and the acquired
  weight adds, for each item, its whole weight at stock 20 or more, half of it at a stock
  strictly between 0 and 20, and nothing otherwise, whatever the sign of the weight.
  The theorems below compare them with what the loop computes.
\<close>

definition pos_part :: "int \<Rightarrow> int" where
  "pos_part w = (if w > 0 then w else 0)"

definition spec_gain :: "int \<Rightarrow> real \<Rightarrow> real" where
  "spec_gain w stock =
     (if stock \<ge> 20 then of_int w
      else if 0 < stock \<and> stock < 20 then of_int w * (1 / 2)
      else 0)"

definition spec_total_weight :: "string dict \<Rightarrow> int" where
  "spec_total_weight nd =
     pos_part (item_weight nd ''supply_a'') + pos_part (item_weight nd ''supply_b'')
       + pos_part (item_weight nd ''supply_c'')"

definition spec_acquired_weight :: "string dict \<Rightarrow> real \<Rightarrow> real \<Rightarrow> real \<Rightarrow> real" where
  "spec_acquired_weight nd a b c =
     spec_gain (item_weight nd ''supply_a'') a + spec_gain (item_weight nd ''supply_b'') b
       + spec_gain (item_weight nd ''supply_c'') c"

definition has_features :: "real dict \<Rightarrow> real \<Rightarrow> real \<Rightarrow> real \<Rightarrow> real \<Rightarrow> bool" where
  \<comment> \<open>a feature snapshot with congestion \<open>g\<close> and the stocks \<open>a\<close>, \<open>b\<close>, \<open>c\<close>\<close>
  "has_features f g a b c \<longleftrightarrow>
     map_of f ''congestion'' = Some g \<and> map_of f ''supply_a'' = Some a
     \<and> map_of f ''supply_b'' = Some b \<and> map_of f ''supply_c'' = Some c"

definition all_lowest :: "string dict \<Rightarrow> bool" where
  "all_lowest nd \<longleftrightarrow>
     map_of nd ''supply_a'' = Some label_lowest \<and> map_of nd ''supply_b'' = Some label_lowest
     \<and> map_of nd ''supply_c'' = Some label_lowest"

subsection \<open>Request fields and the sanitizer\<close>

text \<open>
  A count field of the JSON body holds a scalar: \<open>RNone\<close> stands for a missing key and
  for \<open>null\<close> (\<open>data.get(k)\<close> gives \<open>None\<close> for both). A JSON number too large for a
  float is read as an infinity. A priority field holds a string or is missing.
\<close>

datatype pyfloat = Finite real | PosInf | NegInf | NaN

datatype raw = RNone | RBool bool | RInt int | RFloat pyfloat | RStr string

text \<open>
  The builtin \<open>int()\<close>. On a string it is modelled for ASCII text: blanks are stripped
  on both sides, then come an optional sign and decimal digits, single underscores allowed
  between digits. Digits and blanks beyond ASCII, which the builtin also reads, and the
  interpreter's limit on the length of a decimal string are not modelled.
\<close>

definition is_space :: "char \<Rightarrow> bool" where
  "is_space c \<longleftrightarrow> c \<in> set [CHR 0x09, CHR 0x0A, CHR 0x0B, CHR 0x0C, CHR 0x0D, CHR 0x20]"

definition is_digit :: "char \<Rightarrow> bool" where
  "is_digit c \<longleftrightarrow> (48::nat) \<le> of_char c \<and> (of_char c :: nat) \<le> 57"

definition digit_val :: "char \<Rightarrow> int" where
  "digit_val c = of_char c - 48"

fun digits_from :: "int \<Rightarrow> string \<Rightarrow> int option" where
  "digits_from acc [] = Some acc"
| "digits_from acc [c] = (if is_digit c then Some (10 * acc + digit_val c) else None)"
| "digits_from acc (c # d # ds) =
     (if is_digit c then digits_from (10 * acc + digit_val c) (d # ds)
      else if c = CHR ''_'' \<and> is_digit d then digits_from (10 * acc + digit_val d) ds
      else None)"

definition int_of_digits :: "string \<Rightarrow> int option" where
  "int_of_digits s =
     (case s of [] \<Rightarrow> None
      | c # cs \<Rightarrow> if is_digit c then digits_from (digit_val c) cs else None)"

definition strip :: "string \<Rightarrow> string" where
  "strip s = rev (dropWhile is_space (rev (dropWhile is_space s)))"

definition int_of_str :: "string \<Rightarrow> exn + int" where
  "int_of_str s =
     (let t = strip s;
          parsed = (case t of [] \<Rightarrow> None
                    | c # cs \<Rightarrow>
                        if c = CHR ''-'' then map_option uminus (int_of_digits cs)
                        else if c = CHR ''+'' then int_of_digits cs
                        else int_of_digits t)
      in case parsed of None \<Rightarrow> Inl ValueError | Some n \<Rightarrow> Inr n)"

definition truncate :: "real \<Rightarrow> int" where
  \<comment> \<open>towards zero\<close>
  "truncate x = (if x \<ge> 0 then \<lfloor>x\<rfloor> else \<lceil>x\<rceil>)"

fun py_int :: "raw \<Rightarrow> exn + int" where
  "py_int RNone = Inl TypeError"
| "py_int (RBool b) = Inr (if b then 1 else 0)"
| "py_int (RInt n) = Inr n"
| "py_int (RFloat (Finite x)) = Inr (truncate x)"
| "py_int (RFloat PosInf) = Inl OverflowError"
| "py_int (RFloat NegInf) = Inl OverflowError"
| "py_int (RFloat NaN) = Inl ValueError"
| "py_int (RStr s) = int_of_str s"

definition safe_int :: "raw \<Rightarrow> int \<Rightarrow> exn + int" where
  \<comment> \<open>\<open>except (ValueError, TypeError)\<close>: any other exception goes on to the caller\<close>
  "safe_int val dflt =
     (case py_int val of
        Inr n \<Rightarrow> Inr n
      | Inl ValueError \<Rightarrow> Inr dflt
      | Inl TypeError \<Rightarrow> Inr dflt
      | Inl e \<Rightarrow> Inl e)"

definition safe_str :: "string option \<Rightarrow> string \<Rightarrow> string" where
  \<comment> \<open>\<open>str(val)\<close> of a string is the string\<close>
  "safe_str val dflt =
     (case val of None \<Rightarrow> dflt | Some s \<Rightarrow> if s = [] then dflt else s)"

subsection \<open>Ranked entries and the request body\<close>

text \<open>
  An entry of a ranked list is a dictionary; its values are numbers, strings, or the
  feature snapshot under \<open>data\<close>. The body of a request is taken at the shape the two
  scoring endpoints read: the two counts, the three priorities and, for a recalculation,
  the list of entries (\<open>None\<close> when the body has no \<open>shelter_list\<close>).
\<close>

datatype val = VNum real | VStr string | VData "real dict"

type_synonym item = "val dict"

record request_body =
  adult_count :: raw
  child_count :: raw
  supply_a :: "string option"
  supply_b :: "string option"
  supply_c :: "string option"
  shelter_list :: "item list option"

definition build_profile :: "request_body \<Rightarrow> exn + user_profile" where
  \<comment> \<open>the same lines in \<open>get_disaster_shelters\<close> and in \<open>recalculate_shelters\<close>\<close>
  "build_profile data =
     (case safe_int (adult_count data) 1 of
        Inl e \<Rightarrow> Inl e
      | Inr adult \<Rightarrow>
          (case safe_int (child_count data) 0 of
             Inl e \<Rightarrow> Inl e
           | Inr child \<Rightarrow>
               let total = max 1 (adult + child)
               in Inr \<lparr>needs = [(''supply_a'', safe_str (supply_a data) label_medium),
                                 (''supply_b'', safe_str (supply_b data) label_medium),
                                 (''supply_c'', safe_str (supply_c data) label_medium)],
                        total_people = total\<rparr>))"

subsection \<open>Recalculation\<close>

definition rescore :: "user_profile \<Rightarrow> item \<Rightarrow> exn + item" where
  \<comment> \<open>the loop body: the entry is updated in place and appended to \<open>results\<close>\<close>
  "rescore profile entry =
     (case subscript entry ''data'' of
        Inl e \<Rightarrow> Inl e
      | Inr (VData features) \<Rightarrow>
          (case calculate_recommendation_score profile features of
             Inl e \<Rightarrow> Inl e
           | Inr (total_score, supply_rate) \<Rightarrow>
               Inr (AList.update ''match_rate'' (VNum supply_rate)
                      (AList.update ''match_score'' (VNum total_score) entry)))
      | Inr _ \<Rightarrow> Inl TypeError)"

fun rescore_all :: "user_profile \<Rightarrow> item list \<Rightarrow> exn + item list" where
  "rescore_all profile [] = Inr []"
| "rescore_all profile (entry # rest) =
     (case rescore profile entry of
        Inl e \<Rightarrow> Inl e
      | Inr entry' \<Rightarrow>
          (case rescore_all profile rest of
             Inl e \<Rightarrow> Inl e
           | Inr results \<Rightarrow> Inr (entry' # results)))"

definition match_score :: "item \<Rightarrow> real" where
  \<comment> \<open>the sort key \<open>x["match_score"]\<close>; every entry of \<open>results\<close> has the key\<close>
  "match_score x = (case map_of x ''match_score'' of Some (VNum s) \<Rightarrow> s | _ \<Rightarrow> 0)"

definition sorted_desc :: "('a \<Rightarrow> real) \<Rightarrow> 'a list \<Rightarrow> 'a list" where
  \<comment> \<open>\<open>sorted(xs, key=k, reverse=True)\<close>: stable, equal keys keep their order\<close>
  "sorted_desc k xs = sort_key (\<lambda>x. - k x) xs"

definition recalculate_shelters :: "request_body \<Rightarrow> exn + item list" where
  \<comment> \<open>\<open>Inl e\<close> is the error payload with status 500, \<open>Inr\<close> the ranked list\<close>
  "recalculate_shelters data =
     (let entries = (case shelter_list data of None \<Rightarrow> [] | Some l \<Rightarrow> l)
      in case build_profile data of
           Inl e \<Rightarrow> Inl e
         | Inr profile \<Rightarrow>
             (case rescore_all profile entries of
                Inl e \<Rightarrow> Inl e
              | Inr results \<Rightarrow> Inr (sorted_desc match_score results)))"

definition only_scores_changed :: "item \<Rightarrow> item \<Rightarrow> bool" where
  "only_scores_changed entry entry' \<longleftrightarrow>
     (\<forall>k. k \<noteq> ''match_score'' \<and> k \<noteq> ''match_rate'' \<longrightarrow> map_of entry' k = map_of entry k)"

definition freshly_scored :: "user_profile \<Rightarrow> item \<Rightarrow> bool" where
  "freshly_scored profile entry' \<longleftrightarrow>
     (\<exists>features total_score supply_rate.
        map_of entry' ''data'' = Some (VData features)
        \<and> calculate_recommendation_score profile features = Inr (total_score, supply_rate)
        \<and> map_of entry' ''match_score'' = Some (VNum total_score)
        \<and> map_of entry' ''match_rate'' = Some (VNum supply_rate))"

subsection \<open>Selection by distance\<close>

text \<open>
  A row of the shelter table has a name and two coordinates; a candidate adds the distance
  from the user, computed by the geodesic function of an external library, which is a
  parameter here.
\<close>

record shelter_row =
  name :: string
  lat :: real
  lng :: real

record candidate = shelter_row +
  distance :: real

type_synonym location = "real \<times> real"

definition make_candidates ::
  "(location \<Rightarrow> location \<Rightarrow> real) \<Rightarrow> location \<Rightarrow> shelter_row list \<Rightarrow> candidate list" where
  "make_candidates geodesic user_loc rows =
     map (\<lambda>row. \<lparr>name = name row, lat = lat row, lng = lng row,
                  distance = geodesic user_loc (lat row, lng row)\<rparr>) rows"

definition select_nearest ::
  "(location \<Rightarrow> location \<Rightarrow> real) \<Rightarrow> location \<Rightarrow> shelter_row list
     \<Rightarrow> candidate list \<times> candidate list" where
  \<comment> \<open>the two lists \<open>candidates\<close> and \<open>nearest_5\<close> once \<open>nearest_5\<close> is assigned\<close>
  "select_nearest geodesic user_loc rows =
     (let candidates = make_candidates geodesic user_loc rows;
          nearest_5 = take 5 (sort_key distance candidates)
      in (candidates, nearest_5))"

definition py_slice :: "'a list \<Rightarrow> nat \<Rightarrow> nat \<Rightarrow> 'a list" where
  \<comment> \<open>\<open>xs[i:j]\<close> for indices that are not negative\<close>
  "py_slice xs i j = drop i (take j xs)"

definition get_nearest_shelters ::
  "(location \<Rightarrow> location \<Rightarrow> real) \<Rightarrow> location \<Rightarrow> shelter_row list \<Rightarrow> candidate list" where
  "get_nearest_shelters geodesic user_loc rows =
     (let shelters = make_candidates geodesic user_loc rows;
          sorted_s = sort_key distance shelters
      in if sorted_s = [] then []
         else let start_idx = (if length sorted_s \<ge> 2 then 1 else 0);
                  end_idx = (if length sorted_s \<ge> 4 then 4 else length sorted_s)
              in py_slice sorted_s start_idx end_idx)"

subsection \<open>Sample inputs\<close>

definition profile_mixed :: user_profile where
  "profile_mixed =
     \<lparr>needs = [(''supply_a'', label_highest), (''supply_b'', label_high),
               (''supply_c'', label_medium)],
      total_people = 1\<rparr>"

definition features_a_only :: "real dict" where
  "features_a_only =
     [(''congestion'', 50), (''supply_a'', 20), (''supply_b'', 0), (''supply_c'', 0)]"

definition profile_avoid :: user_profile where
  "profile_avoid =
     \<lparr>needs = [(''supply_a'', label_medium), (''supply_b'', label_lowest),
               (''supply_c'', label_lowest)],
      total_people = 6\<rparr>"

definition profile_all_lowest :: user_profile where
  "profile_all_lowest =
     \<lparr>needs = [(''supply_a'', label_lowest), (''supply_b'', label_lowest),
               (''supply_c'', label_lowest)],
      total_people = 5\<rparr>"

definition features_full :: "real dict" where
  "features_full =
     [(''congestion'', 30), (''supply_a'', 100), (''supply_b'', 20), (''supply_c'', 57)]"

definition features_empty :: "real dict" where
  "features_empty =
     [(''congestion'', 100), (''supply_a'', 0), (''supply_b'', 0), (''supply_c'', 0)]"

definition features_half :: "real dict" where
  "features_half =
     [(''congestion'', 10), (''supply_a'', 5), (''supply_b'', 0), (''supply_c'', 19.5)]"

definition profile_low :: user_profile where
  "profile_low =
     \<lparr>needs = [(''supply_a'', label_low), (''supply_b'', label_lowest),
               (''supply_c'', label_low)],
      total_people = 2\<rparr>"

definition sample_geodesic :: "location \<Rightarrow> location \<Rightarrow> real" where
  \<comment> \<open>a stand-in for the geodesic distance, for the sample inputs only\<close>
  "sample_geodesic p q = \<bar>fst p - fst q\<bar> + \<bar>snd p - snd q\<bar>"

definition sample_rows :: "shelter_row list" where
  "sample_rows =
     [\<lparr>name = ''A'', lat = 3, lng = 0\<rparr>, \<lparr>name = ''B'', lat = 1, lng = 0\<rparr>,
      \<lparr>name = ''C'', lat = 0, lng = 3\<rparr>, \<lparr>name = ''D'', lat = 2, lng = 0\<rparr>,
      \<lparr>name = ''E'', lat = 0, lng = 1\<rparr>, \<lparr>name = ''F'', lat = 9, lng = 0\<rparr>,
      \<lparr>name = ''G'', lat = 0, lng = 0\<rparr>]"

definition sample_rows3 :: "shelter_row list" where
  "sample_rows3 =
     [\<lparr>name = ''A'', lat = 3, lng = 0\<rparr>, \<lparr>name = ''B'', lat = 1, lng = 0\<rparr>,
      \<lparr>name = ''D'', lat = 2, lng = 0\<rparr>]"

definition request_odd :: request_body where
  "request_odd =
     \<lparr>adult_count = RInt (- 5), child_count = RInt 7, supply_a = Some ''abc'',
      supply_b = None, supply_c = Some [], shelter_list = None\<rparr>"



definition entry_a :: item where
  "entry_a =
     [(''name'', VStr ''A''), (''lat'', VNum 35), (''lng'', VNum 135),
      (''distance'', VNum 120), (''data'', VData features_full),
      (''match_score'', VNum 80), (''match_rate'', VNum 90)]"

definition entry_b :: item where
  "entry_b =
     [(''name'', VStr ''B''), (''lat'', VNum 36), (''lng'', VNum 136),
      (''distance'', VNum 450), (''data'', VData features_empty),
      (''match_score'', VNum 20), (''match_rate'', VNum 0)]"

definition request_recalc :: request_body where
  "request_recalc =
     \<lparr>adult_count = RInt 2, child_count = RNone, supply_a = Some label_lowest,
      supply_b = Some label_lowest, supply_c = Some label_lowest,
      shelter_list = Some [entry_a, entry_b]\<rparr>"

definition ranked_recalc :: "item list" where
  "ranked_recalc =
     [[(''name'', VStr ''B''), (''lat'', VNum 36), (''lng'', VNum 136),
       (''distance'', VNum 450), (''data'', VData features_empty),
       (''match_score'', VNum 100), (''match_rate'', VNum 100)],
      [(''name'', VStr ''A''), (''lat'', VNum 35), (''lng'', VNum 135),
       (''distance'', VNum 120), (''data'', VData features_full),
       (''match_score'', VNum 35), (''match_rate'', VNum 40)]]"

section \<open>The priority table\<close>

lemma weight_of_labels:
  "weight_of label_highest = 10" "weight_of label_high = 6" "weight_of label_medium = 3"
  "weight_of label_low = - 5" "weight_of label_lowest = - 20"
  by (simp_all add: weight_of_def get_or_def PRIORITY_WEIGHTS_def label_highest_def
      label_high_def label_medium_def label_low_def label_lowest_def)

lemma weight_of_other:
  assumes "l \<notin> {label_highest, label_high, label_medium, label_low, label_lowest}"
  shows "weight_of l = 3"
  using assms by (simp add: weight_of_def get_or_def PRIORITY_WEIGHTS_def)

lemma weight_of_cases: "weight_of l \<in> {10, 6, 3, - 5, - 20}"
  by (simp add: weight_of_def get_or_def PRIORITY_WEIGHTS_def)

text \<open>
  C5. The weight lookup is a total function: Highest has weight 10, High 6, Medium 3,
  Low -5 and Lowest -20; every other label has weight 3, and so has an item whose label
  is missing from the needs dictionary. Being a function of the label alone, it gives
  the same weight for the same label at every call.
\<close>

theorem priority_weight_table:
  "weight_of label_highest = 10 \<and> weight_of label_high = 6 \<and> weight_of label_medium = 3
   \<and> weight_of label_low = - 5 \<and> weight_of label_lowest = - 20
   \<and> (\<forall>l. l \<notin> {label_highest, label_high, label_medium, label_low, label_lowest}
          \<longrightarrow> weight_of l = 3)
   \<and> (\<forall>d item. map_of d item = None \<longrightarrow> item_weight d item = 3)
   \<and> (\<forall>l l'. l = l' \<longrightarrow> weight_of l = weight_of l')"
  by (simp add: weight_of_labels weight_of_other item_weight_def get_or_def)

theorem priority_weight_table_witness:
  "''unknown'' \<notin> {label_highest, label_high, label_medium, label_low, label_lowest}
   \<and> weight_of ''unknown'' = 3
   \<and> map_of [(''supply_a'', label_low)] ''supply_b'' = None
   \<and> item_weight [(''supply_a'', label_low)] ''supply_b'' = 3
   \<and> weight_of label_lowest = weight_of label_lowest"
  using priority_weight_table
  by (simp add: label_highest_def label_high_def label_medium_def label_low_def
      label_lowest_def)

section \<open>The score engine on a complete feature snapshot\<close>

lemmas label_defs =
  label_highest_def label_high_def label_medium_def label_low_def label_lowest_def

lemmas engine_defs =
  calculate_recommendation_score_def subscript_def supply_items_def tally_item_def
  get_or_def weight_of_def PRIORITY_WEIGHTS_def supply_score_of_def total_score_of_def
  py_round_def round_half_even_def Let_def

lemmas spec_defs =
  has_features_def spec_total_weight_def spec_acquired_weight_def spec_gain_def
  pos_part_def item_weight_def weight_of_def get_or_def PRIORITY_WEIGHTS_def

lemma tally_item_present:
  assumes "map_of f item = Some s"
  shows "tally_item p f item (tw, aw) =
           Inr (tw + pos_part (item_weight (needs p) item),
                aw + spec_gain (item_weight (needs p) item) s)"
  using assms
  by (simp add: tally_item_def subscript_def item_weight_def pos_part_def spec_gain_def Let_def)

lemma tally_present:
  assumes "has_features f g a b c"
  shows "tally p f supply_items (0, 0) =
           Inr (spec_total_weight (needs p), spec_acquired_weight (needs p) a b c)"
  using assms
  by (simp add: has_features_def supply_items_def tally_item_present spec_total_weight_def
      spec_acquired_weight_def)

lemma calculate_present:
  assumes "has_features f g a b c"
  shows "calculate_recommendation_score p f =
           Inr (py_round (total_score_of (total_people p) g
                  (supply_score_of (spec_total_weight (needs p))
                     (spec_acquired_weight (needs p) a b c))) 1,
                py_round (supply_score_of (spec_total_weight (needs p))
                     (spec_acquired_weight (needs p) a b c)) 1)"
  using assms tally_present [OF assms, of p]
  by (simp add: calculate_recommendation_score_def subscript_def has_features_def Let_def)


lemma round_half_even_of_int: "round_half_even (of_int m) = m"
  by (simp add: round_half_even_def)

lemma round_half_even_le:
  assumes "y \<le> of_int m"
  shows "round_half_even y \<le> m"
proof (cases "\<lfloor>y\<rfloor> < m")
  case True
  then show ?thesis by (simp add: round_half_even_def Let_def)
next
  case False
  have "\<lfloor>y\<rfloor> \<le> m" using assms by (simp add: floor_le_iff)
  with False have fl: "\<lfloor>y\<rfloor> = m" by simp
  have "of_int \<lfloor>y\<rfloor> \<le> y" by simp
  with fl assms have "y = of_int m" by simp
  then show ?thesis by (simp add: round_half_even_of_int)
qed

lemma py_round_le_100:
  assumes "x \<le> 100"
  shows "py_round x 1 \<le> 100"
proof -
  have "x * 10 \<le> of_int 1000" using assms by simp
  then have "round_half_even (x * 10) \<le> 1000" by (rule round_half_even_le)
  then have "(of_int (round_half_even (x * 10)) :: real) \<le> 1000" by linarith
  then show ?thesis by (simp add: py_round_def)
qed

lemma py_round_half:
  "py_round (of_int k / 2) 1 = of_int k / 2"
proof -
  have "(of_int k / 2 * 10 :: real) = of_int (5 * k)" by simp
  then have "round_half_even (of_int k / 2 * 10) = 5 * k"
    by (simp only: round_half_even_of_int)
  then show ?thesis by (simp add: py_round_def)
qed

lemma spec_gain_half: "\<exists>k. spec_gain w s = of_int k / 2"
proof -
  have "spec_gain w s = of_int (2 * w) / 2 \<or> spec_gain w s = of_int w / 2
        \<or> spec_gain w s = of_int 0 / 2"
    by (simp add: spec_gain_def)
  then show ?thesis by blast
qed

lemma spec_acquired_half: "\<exists>k. spec_acquired_weight nd a b c = of_int k / 2"
proof -
  obtain k1 where k1: "spec_gain (item_weight nd ''supply_a'') a = of_int k1 / 2"
    using spec_gain_half by blast
  obtain k2 where k2: "spec_gain (item_weight nd ''supply_b'') b = of_int k2 / 2"
    using spec_gain_half by blast
  obtain k3 where k3: "spec_gain (item_weight nd ''supply_c'') c = of_int k3 / 2"
    using spec_gain_half by blast
  have "spec_acquired_weight nd a b c = of_int (k1 + k2 + k3) / 2"
    by (simp add: spec_acquired_weight_def k1 k2 k3 add_divide_distrib)
  then show ?thesis by blast
qed

lemma py_round_capped_sum:
  "py_round (min 100 (100 + spec_acquired_weight nd a b c)) 1
     = min 100 (100 + spec_acquired_weight nd a b c)"
proof -
  obtain k where k: "spec_acquired_weight nd a b c = of_int k / 2"
    using spec_acquired_half by blast
  have "min 100 (100 + spec_acquired_weight nd a b c) = (of_int (min 200 (200 + k)) / 2 :: real)"
    by (simp add: k min_def)
  then show ?thesis by (simp only: py_round_half)
qed

lemma spec_total_zero:
  assumes "item_weight nd ''supply_a'' \<le> 0" "item_weight nd ''supply_b'' \<le> 0"
    "item_weight nd ''supply_c'' \<le> 0"
  shows "spec_total_weight nd = 0"
  using assms by (simp add: spec_total_weight_def pos_part_def)

text \<open>
  C1, as amended. With a complete feature snapshot and a strictly positive total weight,
  the call returns, and the supply score it returns is the quotient of the acquired
  weight by the total weight, times 100, capped at 100 and not clamped below, then
  rounded to one decimal place.
\<close>

theorem supply_score_positive_total:
  assumes "has_features f g a b c" and "0 < spec_total_weight (needs p)"
  shows "\<exists>t. calculate_recommendation_score p f =
           Inr (t, py_round (min 100 (spec_acquired_weight (needs p) a b c
                                        / of_int (spec_total_weight (needs p)) * 100)) 1)"
  using assms(2) by (simp add: calculate_present [OF assms(1)] supply_score_of_def)

theorem supply_score_positive_total_witness:
  "has_features features_full 30 100 20 57
   \<and> 0 < spec_total_weight (needs profile_avoid)
   \<and> (\<exists>t. calculate_recommendation_score profile_avoid features_full
             = Inr (t, - (12333 / 10)))"
proof -
  have h: "has_features features_full 30 100 20 57"
    by (simp add: has_features_def features_full_def)
  have tw: "spec_total_weight (needs profile_avoid) = 3"
    by (simp add: profile_avoid_def spec_defs label_defs)
  have aw: "spec_acquired_weight (needs profile_avoid) 100 20 57 = - 37"
    by (simp add: profile_avoid_def spec_defs label_defs)
  have r: "py_round (min 100 (- 37 / of_int 3 * 100)) 1 = - (12333 / 10)"
    by (simp add: py_round_def round_half_even_def Let_def)
  from tw have pos: "0 < spec_total_weight (needs profile_avoid)" by simp
  have "\<exists>t. calculate_recommendation_score profile_avoid features_full
               = Inr (t, py_round (min 100 (- 37 / of_int 3 * 100)) 1)"
    using supply_score_positive_total [OF h pos] by (simp only: tw aw)
  then have "\<exists>t. calculate_recommendation_score profile_avoid features_full
               = Inr (t, - (12333 / 10))"
    by (simp only: r)
  with h pos show ?thesis by blast
qed

text \<open>
  C1 as stated leaves the rounding out. With priorities Highest, High and Medium and
  stock of the first item only, the total weight is 19 and the acquired weight 10: the
  capped quotient is 1000/19, and the score returned is 52.6.
\<close>

theorem supply_score_unrounded_counterexample:
  "has_features features_a_only 50 20 0 0
   \<and> spec_total_weight (needs profile_mixed) = 19
   \<and> spec_acquired_weight (needs profile_mixed) 20 0 0 = 10
   \<and> calculate_recommendation_score profile_mixed features_a_only = Inr (513 / 10, 263 / 5)
   \<and> min 100 (spec_acquired_weight (needs profile_mixed) 20 0 0
               / of_int (spec_total_weight (needs profile_mixed)) * 100) = 1000 / 19
   \<and> (263 / 5 :: real) \<noteq> 1000 / 19"
  by (simp add: profile_mixed_def features_a_only_def engine_defs spec_defs label_defs)

lemma all_lowest_weights:
  assumes "all_lowest nd"
  shows "item_weight nd ''supply_a'' = - 20" "item_weight nd ''supply_b'' = - 20"
    "item_weight nd ''supply_c'' = - 20"
  using assms by (simp_all add: all_lowest_def item_weight_def get_or_def weight_of_labels)

lemma supply_score_zero_total_general:
  assumes "has_features f g a b c"
    and "item_weight (needs p) ''supply_a'' \<le> 0" "item_weight (needs p) ''supply_b'' \<le> 0"
      "item_weight (needs p) ''supply_c'' \<le> 0"
  shows "\<exists>t. calculate_recommendation_score p f =
           Inr (t, min 100 (100 + spec_acquired_weight (needs p) a b c))"
proof -
  have "spec_total_weight (needs p) = 0" using assms(2-4) by (rule spec_total_zero)
  then have "supply_score_of (spec_total_weight (needs p))
               (spec_acquired_weight (needs p) a b c)
             = min 100 (100 + spec_acquired_weight (needs p) a b c)"
    by (simp add: supply_score_of_def)
  then have "calculate_recommendation_score p f =
           Inr (py_round (total_score_of (total_people p) g
                  (min 100 (100 + spec_acquired_weight (needs p) a b c))) 1,
                min 100 (100 + spec_acquired_weight (needs p) a b c))"
    using calculate_present [OF assms(1), of p] by (simp only: py_round_capped_sum)
  then show ?thesis by blast
qed

text \<open>
  C2. When the three items all carry a weight that is not positive, the total weight is
  0 and the supply score returned is \<open>min 100 (100 + acquired weight)\<close>; rounding
  leaves it as it is, a multiple of one half. With the three items at Lowest it is 100 at
  zero stock of all three and 40 at stock of 20 or more of all three.
\<close>

theorem supply_score_zero_total:
  assumes "has_features f g a b c"
  shows "(item_weight (needs p) ''supply_a'' \<le> 0 \<and> item_weight (needs p) ''supply_b'' \<le> 0
          \<and> item_weight (needs p) ''supply_c'' \<le> 0
          \<longrightarrow> spec_total_weight (needs p) = 0
              \<and> (\<exists>t. calculate_recommendation_score p f =
                     Inr (t, min 100 (100 + spec_acquired_weight (needs p) a b c))))
       \<and> (all_lowest (needs p) \<and> a = 0 \<and> b = 0 \<and> c = 0
          \<longrightarrow> (\<exists>t. calculate_recommendation_score p f = Inr (t, 100)))
       \<and> (all_lowest (needs p) \<and> a \<ge> 20 \<and> b \<ge> 20 \<and> c \<ge> 20
          \<longrightarrow> (\<exists>t. calculate_recommendation_score p f = Inr (t, 40)))"
proof (intro conjI impI)
  assume w: "item_weight (needs p) ''supply_a'' \<le> 0 \<and> item_weight (needs p) ''supply_b'' \<le> 0
          \<and> item_weight (needs p) ''supply_c'' \<le> 0"
  then show "spec_total_weight (needs p) = 0" by (simp add: spec_total_zero)
  from w show "\<exists>t. calculate_recommendation_score p f =
                     Inr (t, min 100 (100 + spec_acquired_weight (needs p) a b c))"
    using supply_score_zero_total_general [OF assms] by simp
next
  assume l: "all_lowest (needs p) \<and> a = 0 \<and> b = 0 \<and> c = 0"
  then have aw: "spec_acquired_weight (needs p) a b c = 0"
    by (simp add: spec_acquired_weight_def spec_gain_def)
  from l have "\<exists>t. calculate_recommendation_score p f =
                     Inr (t, min 100 (100 + spec_acquired_weight (needs p) a b c))"
    using supply_score_zero_total_general [OF assms] by (simp add: all_lowest_weights)
  then show "\<exists>t. calculate_recommendation_score p f = Inr (t, 100)"
    by (simp add: aw)
next
  assume l: "all_lowest (needs p) \<and> a \<ge> 20 \<and> b \<ge> 20 \<and> c \<ge> 20"
  then have aw: "spec_acquired_weight (needs p) a b c = - 60"
    by (simp add: spec_acquired_weight_def spec_gain_def all_lowest_weights)
  from l have "\<exists>t. calculate_recommendation_score p f =
                     Inr (t, min 100 (100 + spec_acquired_weight (needs p) a b c))"
    using supply_score_zero_total_general [OF assms] by (simp add: all_lowest_weights)
  then show "\<exists>t. calculate_recommendation_score p f = Inr (t, 40)"
    by (simp add: aw)
qed

theorem supply_score_zero_total_witness:
  "has_features features_half 10 5 0 (39 / 2)
   \<and> item_weight (needs profile_low) ''supply_a'' \<le> 0
   \<and> item_weight (needs profile_low) ''supply_b'' \<le> 0
   \<and> item_weight (needs profile_low) ''supply_c'' \<le> 0
   \<and> (\<exists>t. calculate_recommendation_score profile_low features_half = Inr (t, 95))
   \<and> has_features features_empty 100 0 0 0 \<and> all_lowest (needs profile_all_lowest)
   \<and> (\<exists>t. calculate_recommendation_score profile_all_lowest features_empty = Inr (t, 100))
   \<and> has_features features_full 30 100 20 57
   \<and> (100::real) \<ge> 20 \<and> (20::real) \<ge> 20 \<and> (57::real) \<ge> 20
   \<and> (\<exists>t. calculate_recommendation_score profile_all_lowest features_full = Inr (t, 40))"
proof -
  have h1: "has_features features_half 10 5 0 (39 / 2)"
    by (simp add: has_features_def features_half_def)
  have h2: "has_features features_empty 100 0 0 0"
    by (simp add: has_features_def features_empty_def)
  have h3: "has_features features_full 30 100 20 57"
    by (simp add: has_features_def features_full_def)
  have w: "item_weight (needs profile_low) ''supply_a'' = - 5"
    "item_weight (needs profile_low) ''supply_b'' = - 20"
    "item_weight (needs profile_low) ''supply_c'' = - 5"
    by (simp_all add: profile_low_def item_weight_def get_or_def weight_of_labels)
  have aw: "spec_acquired_weight (needs profile_low) 5 0 (39 / 2) = - 5"
    by (simp add: spec_acquired_weight_def spec_gain_def w)
  have al: "all_lowest (needs profile_all_lowest)"
    by (simp add: all_lowest_def profile_all_lowest_def)
  have c1: "\<exists>t. calculate_recommendation_score profile_low features_half = Inr (t, 95)"
    using supply_score_zero_total [OF h1, of profile_low] by (simp add: w aw)
  have c2: "\<exists>t. calculate_recommendation_score profile_all_lowest features_empty
                   = Inr (t, 100)"
    using supply_score_zero_total [OF h2, of profile_all_lowest] al by simp
  have c3: "\<exists>t. calculate_recommendation_score profile_all_lowest features_full
                   = Inr (t, 40)"
    using supply_score_zero_total [OF h3, of profile_all_lowest] al by simp
  show ?thesis using h1 h2 h3 al c1 c2 c3 by (simp add: w)
qed



text \<open>
  C4. Below six people and with congestion at most 100, the composite score returned is
  at most 100.
\<close>

theorem composite_score_bounded:
  assumes "has_features f g a b c" and "total_people p < 6" and "g \<le> 100"
  shows "\<exists>t s. calculate_recommendation_score p f = Inr (t, s) \<and> t \<le> 100"
proof -
  let ?s = "supply_score_of (spec_total_weight (needs p)) (spec_acquired_weight (needs p) a b c)"
  have "?s \<le> 100" by (simp add: supply_score_of_def)
  with assms(3) have "total_score_of (total_people p) g ?s \<le> 100"
    using assms(2) by (simp add: total_score_of_def)
  then have "py_round (total_score_of (total_people p) g ?s) 1 \<le> 100"
    by (rule py_round_le_100)
  then show ?thesis by (simp add: calculate_present [OF assms(1)])
qed


theorem composite_score_bounded_witness:
  "has_features features_empty 100 0 0 0
   \<and> total_people profile_all_lowest < 6 \<and> (100::real) \<le> 100
   \<and> (\<exists>t s. calculate_recommendation_score profile_all_lowest features_empty = Inr (t, s)
              \<and> t \<le> 100)"
proof -
  have h: "has_features features_empty 100 0 0 0"
    by (simp add: has_features_def features_empty_def)
  have p: "total_people profile_all_lowest < 6" by (simp add: profile_all_lowest_def)
  show ?thesis using composite_score_bounded [OF h p] h p by simp
qed

section \<open>Selection by distance\<close>

lemma length_make_candidates: "length (make_candidates g loc rows) = length rows"
  by (simp add: make_candidates_def)

lemma filter_take_prefix: "prefix (filter P (take n xs)) (filter P xs)"
proof -
  have "filter P xs = filter P (take n xs) @ filter P (drop n xs)"
    by (metis append_take_drop_id filter_append)
  then show ?thesis by (rule prefixI)
qed

lemma sorted_take_drop_le:
  assumes "sorted (map f xs)" "x \<in> set (take n xs)" "y \<in> set (drop n xs)"
  shows "f x \<le> f y"
proof -
  have "sorted (map f (take n xs) @ map f (drop n xs))"
    using assms(1) by (simp flip: map_append)
  then show ?thesis using assms(2,3) by (auto simp: sorted_append)
qed

text \<open>
  C7. The selection keeps the first five candidates of the stable ascending sort by
  distance: their number is the smaller of 5 and the number of shelters, they are in
  ascending order of distance, the selected candidates at any one distance are, in their
  input order, an initial part of the input's candidates at that distance, no candidate
  left out is nearer than a selected one, and the list of candidates itself is what it
  was before the sort.
\<close>

theorem nearest_candidates:
  "case select_nearest geodesic user_loc rows of
     (candidates, nearest_5) \<Rightarrow>
       length nearest_5 = min 5 (length rows)
       \<and> sorted (map distance nearest_5)
       \<and> (\<forall>d. prefix (filter (\<lambda>c. distance c = d) nearest_5)
                       (filter (\<lambda>c. distance c = d) candidates))
       \<and> (\<exists>rest. mset nearest_5 + mset rest = mset candidates
                 \<and> (\<forall>x\<in>set nearest_5. \<forall>y\<in>set rest. distance x \<le> distance y))
       \<and> candidates = make_candidates geodesic user_loc rows"
proof -
  let ?cs = "make_candidates geodesic user_loc rows"
  let ?s = "sort_key distance ?cs"
  have len: "length (take 5 ?s) = min 5 (length rows)"
    by (simp add: length_make_candidates min.commute)
  have srt: "sorted (map distance (take 5 ?s))"
    using sorted_wrt_take [of "(\<le>)" "map distance ?s" 5] by (simp add: take_map)
  have stab: "prefix (filter (\<lambda>c. distance c = d) (take 5 ?s))
                     (filter (\<lambda>c. distance c = d) ?cs)" for d
    using filter_take_prefix [of "\<lambda>c. distance c = d" 5 ?s] by (simp only: sort_key_stable)
  have "mset (take 5 ?s) + mset (drop 5 ?s) = mset ?cs"
    by (metis append_take_drop_id mset_append mset_sort)
  moreover have "\<forall>x\<in>set (take 5 ?s). \<forall>y\<in>set (drop 5 ?s). distance x \<le> distance y"
    using sorted_take_drop_le [of distance ?s _ 5] by simp
  ultimately have near: "\<exists>rest. mset (take 5 ?s) + mset rest = mset ?cs
                 \<and> (\<forall>x\<in>set (take 5 ?s). \<forall>y\<in>set rest. distance x \<le> distance y)"
    by blast
  show ?thesis
    unfolding select_nearest_def Let_def prod.case
    using len srt stab near by blast
qed

lemma sample_nearest:
  "snd (select_nearest sample_geodesic (0, 0) sample_rows) =
     [\<lparr>name = ''G'', lat = 0, lng = 0, distance = 0\<rparr>,
      \<lparr>name = ''B'', lat = 1, lng = 0, distance = 1\<rparr>,
      \<lparr>name = ''E'', lat = 0, lng = 1, distance = 1\<rparr>,
      \<lparr>name = ''D'', lat = 2, lng = 0, distance = 2\<rparr>,
      \<lparr>name = ''A'', lat = 3, lng = 0, distance = 3\<rparr>]"
  by (simp add: select_nearest_def make_candidates_def sample_rows_def sample_geodesic_def)

theorem nearest_candidates_witness:
  "length (snd (select_nearest sample_geodesic (0, 0) sample_rows)) = min 5 (length sample_rows)
   \<and> sorted (map distance (snd (select_nearest sample_geodesic (0, 0) sample_rows)))
   \<and> prefix (filter (\<lambda>c. distance c = 1)
               (snd (select_nearest sample_geodesic (0, 0) sample_rows)))
             (filter (\<lambda>c. distance c = 1)
               (fst (select_nearest sample_geodesic (0, 0) sample_rows)))
   \<and> \<lparr>name = ''B'', lat = 1, lng = 0, distance = 1\<rparr>
        \<in> set (snd (select_nearest sample_geodesic (0, 0) sample_rows))
   \<and> map name (snd (select_nearest sample_geodesic (0, 0) sample_rows))
        = [''G'', ''B'', ''E'', ''D'', ''A'']"
proof -
  have "length (snd (select_nearest sample_geodesic (0, 0) sample_rows))
          = min 5 (length sample_rows)
        \<and> sorted (map distance (snd (select_nearest sample_geodesic (0, 0) sample_rows)))
        \<and> prefix (filter (\<lambda>c. distance c = 1)
               (snd (select_nearest sample_geodesic (0, 0) sample_rows)))
             (filter (\<lambda>c. distance c = 1)
               (fst (select_nearest sample_geodesic (0, 0) sample_rows)))"
    using nearest_candidates [where geodesic = sample_geodesic and user_loc = "(0, 0)"
        and rows = sample_rows, unfolded case_prod_unfold]
    by blast
  then show ?thesis by (simp add: sample_nearest)
qed

lemma sort_key_single: "length xs = 1 \<Longrightarrow> sort_key f xs = xs"
  by (cases xs) auto

lemma slice_three: "length xs = 3 \<Longrightarrow> py_slice xs 1 3 = [xs ! 1, xs ! 2]"
proof -
  assume "length xs = 3"
  then obtain a b c where "xs = [a, b, c]"
    by (metis (no_types, opaque_lifting) length_0_conv length_Suc_conv numeral_3_eq_3)
  then show ?thesis by (simp add: py_slice_def)
qed

text \<open>
  C8. The nearby listing is the slice of the ascending sort from index 1 (0 with fewer
  than two shelters) to index 4 (the length with fewer than four). It is empty only for
  an empty collection; one shelter is returned as it is; of three shelters the ones at
  sorted indices 1 and 2 are returned.
\<close>

theorem nearby_window:
  "(let n = length rows;
        sorted_s = sort_key distance (make_candidates geodesic user_loc rows);
        window = get_nearest_shelters geodesic user_loc rows
    in window = py_slice sorted_s (if n \<ge> 2 then 1 else 0) (if n \<ge> 4 then 4 else n)
       \<and> (window = [] \<longleftrightarrow> rows = [])
       \<and> (n = 1 \<longrightarrow> window = make_candidates geodesic user_loc rows)
       \<and> (n = 3 \<longrightarrow> window = [sorted_s ! 1, sorted_s ! 2]))"
proof -
  let ?cs = "make_candidates geodesic user_loc rows"
  let ?s = "sort_key distance ?cs"
  let ?n = "length rows"
  let ?w = "get_nearest_shelters geodesic user_loc rows"
  have ls: "length ?s = ?n" by (simp add: length_make_candidates)
  have nil: "?s = [] \<longleftrightarrow> rows = []"
    using ls by (metis length_0_conv)
  have w: "?w = py_slice ?s (if ?n \<ge> 2 then 1 else 0) (if ?n \<ge> 4 then 4 else ?n)"
  proof (cases "rows = []")
    case True
    then show ?thesis by (simp add: get_nearest_shelters_def make_candidates_def py_slice_def)
  next
    case False
    with nil have "?s \<noteq> []" by simp
    then show ?thesis
      by (simp add: get_nearest_shelters_def Let_def length_make_candidates)
  qed
  have lw: "length ?w = (if ?n \<ge> 4 then 4 else ?n) - (if ?n \<ge> 2 then 1 else 0)"
    by (simp add: w py_slice_def length_make_candidates)
  have e: "?w = [] \<longleftrightarrow> rows = []"
  proof
    assume "?w = []"
    then have "length ?w = 0" by simp
    with lw have "?n = 0" by (simp split: if_splits)
    then show "rows = []" by simp
  next
    assume "rows = []"
    then show "?w = []" by (simp add: get_nearest_shelters_def make_candidates_def)
  qed
  have one: "?n = 1 \<longrightarrow> ?w = ?cs"
  proof
    assume n1: "?n = 1"
    then have "length ?cs = 1" by (simp add: length_make_candidates)
    then have "?s = ?cs" by (rule sort_key_single)
    with n1 \<open>length ?cs = 1\<close> show "?w = ?cs" by (simp add: w py_slice_def)
  qed
  have three: "?n = 3 \<longrightarrow> ?w = [?s ! 1, ?s ! 2]"
  proof
    assume n3: "?n = 3"
    then have "length ?s = 3" using ls by simp
    then have "py_slice ?s 1 3 = [?s ! 1, ?s ! 2]" by (rule slice_three)
    then show "?w = [?s ! 1, ?s ! 2]" using n3 by (simp add: w)
  qed
  show ?thesis unfolding Let_def using w e one three by blast
qed

theorem nearby_window_witness:
  "length sample_rows3 = 3
   \<and> get_nearest_shelters sample_geodesic (0, 0) sample_rows3
       = [\<lparr>name = ''D'', lat = 2, lng = 0, distance = 2\<rparr>,
          \<lparr>name = ''A'', lat = 3, lng = 0, distance = 3\<rparr>]
   \<and> length [\<lparr>name = ''F'', lat = 9, lng = 0\<rparr>] = 1
   \<and> get_nearest_shelters sample_geodesic (0, 0) [\<lparr>name = ''F'', lat = 9, lng = 0\<rparr>]
       = [\<lparr>name = ''F'', lat = 9, lng = 0, distance = 9\<rparr>]
   \<and> (get_nearest_shelters sample_geodesic (0, 0) [] = [])"
proof -
  have l3: "length sample_rows3 = 3" by (simp add: sample_rows3_def)
  have s3: "sort_key distance (make_candidates sample_geodesic (0, 0) sample_rows3)
              = [\<lparr>name = ''B'', lat = 1, lng = 0, distance = 1\<rparr>,
                 \<lparr>name = ''D'', lat = 2, lng = 0, distance = 2\<rparr>,
                 \<lparr>name = ''A'', lat = 3, lng = 0, distance = 3\<rparr>]"
    by (simp add: make_candidates_def sample_rows3_def sample_geodesic_def)
  have w3: "get_nearest_shelters sample_geodesic (0, 0) sample_rows3
       = [\<lparr>name = ''D'', lat = 2, lng = 0, distance = 2\<rparr>,
          \<lparr>name = ''A'', lat = 3, lng = 0, distance = 3\<rparr>]"
    using nearby_window [where geodesic = sample_geodesic and user_loc = "(0, 0)" and rows = sample_rows3]
      l3
    by (simp add: Let_def s3 py_slice_def)
  have w1: "get_nearest_shelters sample_geodesic (0, 0) [\<lparr>name = ''F'', lat = 9, lng = 0\<rparr>]
       = [\<lparr>name = ''F'', lat = 9, lng = 0, distance = 9\<rparr>]"
    using nearby_window [where geodesic = sample_geodesic and user_loc = "(0, 0)"
        and rows = "[\<lparr>name = ''F'', lat = 9, lng = 0\<rparr>]"]
    by (simp add: Let_def make_candidates_def sample_geodesic_def py_slice_def)
  have w0: "get_nearest_shelters sample_geodesic (0, 0) [] = []"
    using nearby_window [where geodesic = sample_geodesic and user_loc = "(0, 0)" and rows = "[]"]
    by (simp add: Let_def py_slice_def)
  show ?thesis using l3 w3 w1 w0 by simp
qed

section \<open>The sanitizer\<close>

lemma int_of_digits_Some:
  assumes "int_of_digits t = Some n"
  shows "t \<noteq> [] \<and> is_digit (hd t)"
  using assms by (cases t) (auto simp: int_of_digits_def split: if_splits)

lemma set_strip: "set (strip s) \<subseteq> set s"
proof -
  have "set (strip s) = set (dropWhile is_space (rev (dropWhile is_space s)))"
    by (simp add: strip_def)
  also have "\<dots> \<subseteq> set (rev (dropWhile is_space s))"
    by (meson set_dropWhileD subsetI)
  also have "\<dots> \<subseteq> set s"
    by (auto dest: set_dropWhileD)
  finally show ?thesis .
qed

lemma int_of_str_no_digit:
  assumes "\<forall>c\<in>set s. \<not> is_digit c"
  shows "int_of_str s = Inl ValueError"
proof -
  have nd: "\<forall>c\<in>set (strip s). \<not> is_digit c"
    using assms set_strip by blast
  have none: "int_of_digits t = None" if "set t \<subseteq> set (strip s)" for t
  proof (cases "int_of_digits t")
    case None
    then show ?thesis .
  next
    case (Some n)
    then have "t \<noteq> []" "is_digit (hd t)" using int_of_digits_Some by blast+
    then have "hd t \<in> set (strip s)" using that by (meson hd_in_set subsetD)
    with nd \<open>is_digit (hd t)\<close> show ?thesis by blast
  qed
  show ?thesis
  proof (cases "strip s")
    case Nil
    then show ?thesis by (simp add: int_of_str_def)
  next
    case (Cons c cs)
    have "int_of_digits cs = None" using none [of cs] Cons by auto
    moreover have "int_of_digits (c # cs) = None" using none [of "c # cs"] Cons by auto
    ultimately show ?thesis by (simp add: int_of_str_def Cons)
  qed
qed






lemma build_profile_Inr:
  assumes "build_profile data = Inr p"
  shows "\<exists>adult child. safe_int (adult_count data) 1 = Inr adult
           \<and> safe_int (child_count data) 0 = Inr child
           \<and> total_people p = max 1 (adult + child)
           \<and> needs p = [(''supply_a'', safe_str (supply_a data) label_medium),
                        (''supply_b'', safe_str (supply_b data) label_medium),
                        (''supply_c'', safe_str (supply_c data) label_medium)]"
  using assms by (auto simp: build_profile_def Let_def split: sum.splits)

text \<open>
  C6, as amended. \<open>safe_int\<close> keeps an integer count as it is, negative or not, and
  returns the default of the call for a missing count and for a string of ASCII characters
  without a digit; the default is 1 for the adult count and 0 for the child count, and
  the number of people is \<open>max 1 (adult + child)\<close>, so at least 1. \<open>safe_str\<close> turns a
  missing or empty priority into Medium and passes every other string on unchanged,
  whether or not it is one of the five labels.
\<close>

theorem sanitizer_behaviour:
  "(\<forall>n d. safe_int (RInt n) d = Inr n)
   \<and> (\<forall>d. safe_int RNone d = Inr d)
   \<and> (\<forall>s d. (\<forall>c\<in>set s. (of_char c :: nat) < 128 \<and> \<not> is_digit c)
            \<longrightarrow> safe_int (RStr s) d = Inr d)
   \<and> (\<forall>data p. build_profile data = Inr p \<longrightarrow>
         (\<exists>adult child. safe_int (adult_count data) 1 = Inr adult
            \<and> safe_int (child_count data) 0 = Inr child
            \<and> total_people p = max 1 (adult + child))
         \<and> total_people p \<ge> 1
         \<and> needs p = [(''supply_a'', safe_str (supply_a data) label_medium),
                      (''supply_b'', safe_str (supply_b data) label_medium),
                      (''supply_c'', safe_str (supply_c data) label_medium)])
   \<and> (\<forall>d. safe_str None d = d \<and> safe_str (Some []) d = d)
   \<and> (\<forall>s d. s \<noteq> [] \<longrightarrow> safe_str (Some s) d = s)"
proof (intro conjI allI impI)
  fix s :: string and d :: int
  assume "\<forall>c\<in>set s. (of_char c :: nat) < 128 \<and> \<not> is_digit c"
  then have "int_of_str s = Inl ValueError" by (simp add: int_of_str_no_digit)
  then show "safe_int (RStr s) d = Inr d" by (simp add: safe_int_def)
next
  fix data p
  assume bp: "build_profile data = Inr p"
  from build_profile_Inr [OF bp]
  show "\<exists>adult child. safe_int (adult_count data) 1 = Inr adult
            \<and> safe_int (child_count data) 0 = Inr child
            \<and> total_people p = max 1 (adult + child)"
    by blast
  from build_profile_Inr [OF bp] show "total_people p \<ge> 1" by auto
  from build_profile_Inr [OF bp]
  show "needs p = [(''supply_a'', safe_str (supply_a data) label_medium),
                      (''supply_b'', safe_str (supply_b data) label_medium),
                      (''supply_c'', safe_str (supply_c data) label_medium)]"
    by blast
qed (simp_all add: safe_int_def safe_str_def)

lemma build_profile_odd:
  "build_profile request_odd =
     Inr \<lparr>needs = [(''supply_a'', ''abc''), (''supply_b'', label_medium),
                   (''supply_c'', label_medium)],
          total_people = 2\<rparr>"
  by (simp add: build_profile_def request_odd_def safe_int_def safe_str_def)

theorem sanitizer_behaviour_witness:
  "safe_int (RInt (- 5)) 0 = Inr (- 5)
   \<and> safe_int RNone 1 = Inr 1
   \<and> safe_int (RStr ''n/a'') 0 = Inr 0
   \<and> (\<exists>p. build_profile request_odd = Inr p \<and> total_people p = 2)
   \<and> safe_str (Some ''abc'') label_medium = ''abc''
   \<and> safe_str None label_medium = label_medium"
proof -
  have nd: "\<forall>c\<in>set ''n/a''. (of_char c :: nat) < 128 \<and> \<not> is_digit c"
    by (simp add: is_digit_def)
  have tp: "\<exists>p. build_profile request_odd = Inr p \<and> total_people p = 2"
    by (simp add: build_profile_odd)
  show ?thesis using sanitizer_behaviour nd tp by simp
qed

text \<open>
  C6 as stated fails three ways: an adult count of -5 stays -5, a count that is not a
  number becomes 1 for the adults, and the priority \<open>abc\<close> reaches the profile though it
  is no label. With 7 children the body below gives 2 people, not 7.
\<close>

theorem sanitizer_nonnegative_counterexample:
  "safe_int (adult_count request_odd) 1 = Inr (- 5)
   \<and> safe_int (RStr ''abc'') 1 = Inr 1
   \<and> safe_str (supply_a request_odd) label_medium = ''abc''
   \<and> ''abc'' \<notin> {label_highest, label_high, label_medium, label_low, label_lowest}
   \<and> build_profile request_odd =
       Inr \<lparr>needs = [(''supply_a'', ''abc''), (''supply_b'', label_medium),
                     (''supply_c'', label_medium)],
            total_people = 2\<rparr>"
  by (simp add: build_profile_odd)
    (simp add: request_odd_def safe_int_def safe_str_def int_of_str_def strip_def
      is_space_def int_of_digits_def is_digit_def label_defs)

section \<open>Recalculation\<close>




lemma rescore_Inr:
  assumes "rescore p e = Inr e'"
  shows "only_scores_changed e e' \<and> freshly_scored p e'"
proof -
  from assms obtain f t s where
    d: "map_of e ''data'' = Some (VData f)"
    and c: "calculate_recommendation_score p f = Inr (t, s)"
    and e': "e' = AList.update ''match_rate'' (VNum s) (AList.update ''match_score'' (VNum t) e)"
    by (auto simp: rescore_def subscript_def split: option.splits sum.splits val.splits)
  have m: "map_of e' = (map_of e)(''match_score'' \<mapsto> VNum t, ''match_rate'' \<mapsto> VNum s)"
    by (simp add: e' update_conv')
  have "only_scores_changed e e'"
    by (simp add: only_scores_changed_def m)
  moreover have "freshly_scored p e'"
    unfolding freshly_scored_def using d c by (auto simp: m)
  ultimately show ?thesis by blast
qed

lemma rescore_all_Inr:
  "rescore_all p es = Inr rs \<Longrightarrow>
     list_all2 (\<lambda>e e'. only_scores_changed e e' \<and> freshly_scored p e') es rs"
proof (induction es arbitrary: rs)
  case Nil
  then show ?case by simp
next
  case (Cons e es)
  from Cons.prems obtain e' rs' where
    1: "rescore p e = Inr e'" and 2: "rescore_all p es = Inr rs'" and 3: "rs = e' # rs'"
    by (auto split: sum.splits)
  from rescore_Inr [OF 1] Cons.IH [OF 2] 3 show ?case by simp
qed

lemma sorted_desc_descending: "sorted_wrt (\<lambda>x y. k x \<ge> k y) (sorted_desc k xs)"
proof -
  have "sorted (map (\<lambda>x. - k x) (sort_key (\<lambda>x. - k x) xs))" by (rule sorted_sort_key)
  then show ?thesis by (simp add: sorted_desc_def sorted_wrt_map)
qed

text \<open>
  C9. When a recalculation returns a ranked list, that list is a rearrangement of the
  entries of the request after rescoring, in descending order of \<open>match_score\<close>. Each
  rescored entry agrees with the entry it comes from on every key but \<open>match_score\<close>
  and \<open>match_rate\<close>, so on \<open>data\<close>, \<open>name\<close>, \<open>lat\<close>, \<open>lng\<close> and \<open>distance\<close>,
  and its two scores are the ones the score engine gives for its own feature snapshot.
\<close>

theorem recalculation_frame:
  assumes "recalculate_shelters data = Inr ranked"
  shows "\<exists>profile results.
           build_profile data = Inr profile
           \<and> list_all2 (\<lambda>entry entry'. only_scores_changed entry entry'
                                        \<and> freshly_scored profile entry')
                (case shelter_list data of None \<Rightarrow> [] | Some l \<Rightarrow> l) results
           \<and> mset ranked = mset results
           \<and> ranked = sorted_desc match_score results
           \<and> sorted_wrt (\<lambda>x y. match_score x \<ge> match_score y) ranked"
proof -
  let ?entries = "case shelter_list data of None \<Rightarrow> [] | Some l \<Rightarrow> l"
  from assms obtain profile results where
    p: "build_profile data = Inr profile"
    and r: "rescore_all profile ?entries = Inr results"
    and s: "ranked = sorted_desc match_score results"
    by (auto simp: recalculate_shelters_def Let_def split: sum.splits)
  have "mset ranked = mset results" by (simp add: s sorted_desc_def)
  moreover have "sorted_wrt (\<lambda>x y. match_score x \<ge> match_score y) ranked"
    unfolding s by (rule sorted_desc_descending)
  ultimately show ?thesis using p rescore_all_Inr [OF r] s by blast
qed

lemma recalc_sample: "recalculate_shelters request_recalc = Inr ranked_recalc"
  by (simp add: recalculate_shelters_def request_recalc_def build_profile_def safe_int_def
      safe_str_def rescore_def entry_a_def entry_b_def features_full_def features_empty_def
      engine_defs label_defs match_score_def sorted_desc_def ranked_recalc_def)

theorem recalculation_frame_witness:
  "recalculate_shelters request_recalc = Inr ranked_recalc
   \<and> map match_score ranked_recalc = [100, 35]
   \<and> map (\<lambda>e. map_of e ''name'') ranked_recalc = [Some (VStr ''B''), Some (VStr ''A'')]
   \<and> map (\<lambda>e. map_of e ''data'') ranked_recalc
        = [map_of entry_b ''data'', map_of entry_a ''data'']
   \<and> sorted_wrt (\<lambda>x y. match_score x \<ge> match_score y) ranked_recalc"
proof -
  have "sorted_wrt (\<lambda>x y. match_score x \<ge> match_score y) ranked_recalc"
    using recalculation_frame [OF recalc_sample] by blast
  then show ?thesis
    using recalc_sample
    by (simp add: ranked_recalc_def match_score_def entry_a_def entry_b_def)
qed

end
